theory Spec2Isabelle
  imports Main "HOL-Library.AList"
begin

section \<open>Stowrage: the dual-index store of src/stowrage.ts\<close>

text \<open>
  The class \<open>Stowrage\<close> keeps two JavaScript \<open>Map\<close>s, \<open>#DB\<close> (name to entry) and
  \<open>#IDMap\<close> (id to name), a counter \<open>#id\<close> and an optional handle \<open>#SQLDB\<close> to an
  SQL table that mirrors the entries. Every method is modelled as a function from the
  state before the call to the outcome and the state after it. A \<open>throw\<close> is the
  \<open>Inl\<close> branch of the outcome.

  A JavaScript \<open>Map\<close> iterates in insertion order, \<open>set\<close> on a present key keeps the
  key's position and \<open>set\<close> on an absent key appends: this is an association list with
  \<open>AList.update\<close>, \<open>AList.delete\<close> and \<open>map_of\<close>.

  Numbers are JavaScript doubles in the source. The ids, the counter, the cap and the
  range bounds are modelled as \<open>int\<close>: the counter starts at 0 and only ever counts up
  by one, and fractional or NaN arguments are outside the model.
\<close>

subsection \<open>Values stored in the store\<close>

text \<open>
  \<open>DataType\<close> is a type parameter of the class (\<open>unknown\<close> by default, "Can be
  anything"). The methods inspect a value only through \<open>typeof\<close>, property reads and
  property writes, so a value is modelled by the JavaScript values these distinguish.
  An object is the list of its own data properties, in the order they were created,
  together with its prototype: the built-in \<open>Object.prototype\<close> (as for an object
  literal and for what \<open>JSON.parse\<close> returns), \<open>null\<close>, or another such object. A
  property read or write goes through the prototype chain, as the runtime's does.

  Outside the model: function values, arrays and other exotic objects, accessor
  properties other than the built-in \<open>__proto__\<close>, read-only properties and objects
  that cannot be extended, and the sharing of one object between several entries or
  with the caller (with it, the runtime's refusal of a prototype chain that loops).
\<close>

datatype jsval =
    Undefined
  | Null
  | Boolean bool
  | Number int
  | String string
  | Object "(string \<times> jsval) list" proto
and proto =
    ObjectPrototype
  | NullPrototype
  | ObjectProto "(string \<times> jsval) list" proto

fun typeof :: "jsval \<Rightarrow> string" where
  "typeof Undefined = ''undefined''"
| "typeof Null = ''object''"
| "typeof (Boolean b) = ''boolean''"
| "typeof (Number n) = ''number''"
| "typeof (String s) = ''string''"
| "typeof (Object ps p) = ''object''"

text \<open>
  The members of \<open>Object.prototype\<close> are eleven functions and the accessor
  \<open>__proto__\<close>, whose getter returns the prototype of the object it is read from and
  whose setter replaces that prototype when given an object or \<open>null\<close>, and does
  nothing when given anything else.
\<close>

definition Object_prototype_functions :: "string list" where
  "Object_prototype_functions =
     [''constructor'', ''__defineGetter__'', ''__defineSetter__'', ''hasOwnProperty'',
      ''__lookupGetter__'', ''__lookupSetter__'', ''isPrototypeOf'',
      ''propertyIsEnumerable'', ''toString'', ''valueOf'', ''toLocaleString'']"

text \<open>
  What a property name leads to: a value of the model (\<open>undefined\<close> when no object of
  the chain has the name), one of the built-in functions, or the accessor \<open>__proto__\<close>.
\<close>

datatype lookup = Value jsval | BuiltinFunction | PrototypeAccessor

fun chain_lookup :: "proto \<Rightarrow> string \<Rightarrow> lookup" where
  "chain_lookup NullPrototype k = Value Undefined"
| "chain_lookup ObjectPrototype k =
     (if k = ''__proto__'' then PrototypeAccessor
      else if k \<in> set Object_prototype_functions then BuiltinFunction
      else Value Undefined)"
| "chain_lookup (ObjectProto ps p) k =
     (case map_of ps k of None \<Rightarrow> chain_lookup p k | Some v \<Rightarrow> Value v)"

text \<open>\<open>obj[key]\<close> on an object: its own property, else what the prototype chain has.\<close>

definition prop_get :: "(string \<times> jsval) list \<Rightarrow> proto \<Rightarrow> string \<Rightarrow> lookup" where
  "prop_get ps p k = (case map_of ps k of None \<Rightarrow> chain_lookup p k | Some v \<Rightarrow> Value v)"

text \<open>
  \<open>typeof obj[key]\<close>. The accessor is only found on \<open>Object.prototype\<close>, so the
  prototype its getter returns is an object.
\<close>

fun typeof_lookup :: "lookup \<Rightarrow> string" where
  "typeof_lookup (Value v) = typeof v"
| "typeof_lookup BuiltinFunction = ''function''"
| "typeof_lookup PrototypeAccessor = ''object''"

text \<open>
  \<open>obj[key] = value\<close> on an object, giving the object after the write. An own property
  takes the value in place. Otherwise, when the chain leads to the accessor
  \<open>__proto__\<close>, its setter runs; in every other case the object gets a new own property.
\<close>

definition prop_set :: "(string \<times> jsval) list \<Rightarrow> proto \<Rightarrow> string \<Rightarrow> jsval \<Rightarrow> jsval" where
  "prop_set ps p k v =
     (case map_of ps k of
        Some old \<Rightarrow> Object (AList.update k v ps) p
      | None \<Rightarrow>
          (case chain_lookup p k of
             PrototypeAccessor \<Rightarrow>
               (case v of
                  Object vs vp \<Rightarrow> Object ps (ObjectProto vs vp)
                | Null \<Rightarrow> Object ps NullPrototype
                | _ \<Rightarrow> Object ps p)
           | _ \<Rightarrow> Object (ps @ [(k, v)]) p))"

text \<open>
  What \<open>JSON.parse\<close> reads back from the column that \<open>JSON.stringify\<close> filled:
  only own properties are written, those holding \<open>undefined\<close> are not, and
  \<open>undefined\<close> itself is stored as SQL NULL, which reads back as \<open>null\<close>.
\<close>

fun JSON_parse_stringify :: "jsval \<Rightarrow> jsval"
  and JSON_props :: "(string \<times> jsval) list \<Rightarrow> (string \<times> jsval) list" where
  "JSON_parse_stringify Undefined = Null"
| "JSON_parse_stringify Null = Null"
| "JSON_parse_stringify (Boolean b) = Boolean b"
| "JSON_parse_stringify (Number n) = Number n"
| "JSON_parse_stringify (String s) = String s"
| "JSON_parse_stringify (Object ps p) = Object (JSON_props ps) ObjectPrototype"
| "JSON_props [] = []"
| "JSON_props ((k, v) # ps) =
     (if v = Undefined then JSON_props ps else (k, JSON_parse_stringify v) # JSON_props ps)"

subsection \<open>Entries, errors, options\<close>

text \<open>
  Modelled from the spec: the interfaces \<open>DataBase\<close>, \<open>StowrageOptions\<close> and
  \<open>ChangeValueOptions\<close> of ./typings.ts and the error classes of ./error.ts, which
  src/ does not hold. The fields are the ones stowrage.ts reads and writes; an error
  is a constructor carrying the arguments it is built with. \<open>TypeError\<close> is the
  runtime's own error for a property read on \<open>undefined\<close> or \<open>null\<close>.
\<close>

record DataBase =
  entry_id :: int
  entry_name :: string
  entry_data :: jsval

record StowrageOptions =
  opt_maxEntries :: "int option"
  opt_name :: "string option"
  opt_persistent :: "bool option"

record ChangeValueOptions =
  cv_key :: "string option"
  cv_value :: jsval

datatype error =
    IDNotFoundError "int option"
  | InvalidKeyError string string
  | KeyUndefinedError
  | NameDuplicationError string
  | NameNotFoundError string
  | nonPersistentError string string
  | TypeError

text \<open>The first argument of \<open>setValue\<close>, \<open>string | number\<close>.\<close>

datatype nameID = ByName string | ByID int

subsection \<open>The persistence mirror\<close>

text \<open>
  Modelled from the spec: the class \<open>DB\<close> of ../deps.ts, the embedded SQL database,
  which src/ does not hold. The one table \<open>stowrage (id INTEGER, name TEXT, data TEXT)\<close>
  is the list of its rows in insertion order, and each statement that stowrage.ts
  issues is a function on that list. The table is created without a key or a
  uniqueness constraint, so \<open>REPLACE INTO\<close> never meets a conflict and adds a row as
  \<open>INSERT INTO\<close> does. A parameter bound to \<open>undefined\<close> is NULL, and \<open>name = NULL\<close>
  holds for no row. The data column holds the value its JSON text denotes.
\<close>

record row =
  row_id :: int
  row_name :: string
  row_data :: jsval

definition INSERT_INTO :: "int \<Rightarrow> string \<Rightarrow> jsval \<Rightarrow> row list \<Rightarrow> row list" where
  "INSERT_INTO i n d rows = rows @ [\<lparr>row_id = i, row_name = n, row_data = JSON_parse_stringify d\<rparr>]"

definition REPLACE_INTO :: "int \<Rightarrow> string \<Rightarrow> jsval \<Rightarrow> row list \<Rightarrow> row list" where
  "REPLACE_INTO i n d rows = rows @ [\<lparr>row_id = i, row_name = n, row_data = JSON_parse_stringify d\<rparr>]"

definition DELETE_WHERE_id :: "int \<Rightarrow> row list \<Rightarrow> row list" where
  "DELETE_WHERE_id i rows = filter (\<lambda>r. row_id r \<noteq> i) rows"

definition DELETE_WHERE_name :: "string option \<Rightarrow> row list \<Rightarrow> row list" where
  "DELETE_WHERE_name n rows =
     (case n of None \<Rightarrow> rows | Some m \<Rightarrow> filter (\<lambda>r. row_name r \<noteq> m) rows)"

definition DELETE_WHERE_id_BETWEEN :: "int \<Rightarrow> int \<Rightarrow> row list \<Rightarrow> row list" where
  "DELETE_WHERE_id_BETWEEN a b rows = filter (\<lambda>r. \<not> (a \<le> row_id r \<and> row_id r \<le> b)) rows"

definition DELETE_FROM :: "row list \<Rightarrow> row list" where
  "DELETE_FROM rows = []"

definition SELECT_name_data :: "row list \<Rightarrow> (string \<times> jsval) list" where
  "SELECT_name_data rows = map (\<lambda>r. (row_name r, row_data r)) rows"

subsection \<open>The store\<close>

text \<open>
  The fields of the class: \<open>id_counter\<close> is \<open>#id\<close>, \<open>SQLDB\<close> is \<open>#SQLDB\<close> (\<open>None\<close> for
  \<open>undefined\<close>, otherwise the open table), \<open>IDMap\<close> is \<open>#IDMap\<close>, \<open>DB\<close> is \<open>#DB\<close>, and
  \<open>store_name\<close> is \<open>name\<close>. The field \<open>path\<close> and the directory the constructor makes
  play no part in any method modelled here.
\<close>

record Stowrage =
  id_counter :: int
  SQLDB :: "row list option"
  IDMap :: "(int \<times> string) list"
  DB :: "(string \<times> DataBase) list"
  maxEntries :: "int option"
  store_name :: "string option"
  isPersistent :: "bool option"

text \<open>
  Truthiness, as \<open>if (x)\<close>, \<open>!x\<close> and \<open>x && y\<close> test it: \<open>undefined\<close>, the empty string,
  0 and \<open>false\<close> are falsy. Where a method tests a name it has just looked up, the
  model writes the two falsy cases out (\<open>None\<close> and \<open>[]\<close>), and likewise for the cap
  (\<open>None\<close> and 0).
\<close>

definition truthy_string :: "string option \<Rightarrow> bool" where
  "truthy_string x = (case x of None \<Rightarrow> False | Some n \<Rightarrow> n \<noteq> [])"

definition truthy_boolean :: "bool option \<Rightarrow> bool" where
  "truthy_boolean x = (x = Some True)"

text \<open>\<open>this.name ?? "unnamed db"\<close>\<close>

definition name_or_unnamed :: "Stowrage \<Rightarrow> string" where
  "name_or_unnamed s = (case store_name s of None \<Rightarrow> ''unnamed db'' | Some n \<Rightarrow> n)"

text \<open>\<open>if (this.#SQLDB && this.isPersistent) this.#SQLDB.query(...)\<close>\<close>

definition mirror :: "(row list \<Rightarrow> row list) \<Rightarrow> Stowrage \<Rightarrow> Stowrage" where
  "mirror q s =
     (case SQLDB s of
        None \<Rightarrow> s
      | Some rows \<Rightarrow> if truthy_boolean (isPersistent s) then s\<lparr>SQLDB := Some (q rows)\<rparr> else s)"

definition constructor :: "StowrageOptions option \<Rightarrow> Stowrage" where
  "constructor options =
     \<lparr>id_counter = 0, SQLDB = None, IDMap = [], DB = [],
      maxEntries = (case options of None \<Rightarrow> None | Some opts \<Rightarrow> opt_maxEntries opts),
      store_name = (case options of None \<Rightarrow> None | Some opts \<Rightarrow> opt_name opts),
      isPersistent = (case options of None \<Rightarrow> None | Some opts \<Rightarrow> opt_persistent opts)\<rparr>"

definition has :: "string \<Rightarrow> Stowrage \<Rightarrow> bool" where
  "has n s = (map_of (DB s) n \<noteq> None)"

definition totalEntries :: "Stowrage \<Rightarrow> int" where
  "totalEntries s = int (length (DB s))"

text \<open>
  \<open>generateEntry(name, key, override)\<close>. With \<open>override\<close> the id is the one stored under
  the name. Without it the counter is read and advanced, the row is inserted, and the
  cap is tested against \<open>#DB.size\<close> as it is at that moment, which is before the
  caller puts the new entry into \<open>#DB\<close>; the id looked up for eviction is the advanced
  counter minus the cap, and only \<open>#DB\<close> loses the name found. That last block, under
  \<open>if (this.maxEntries && this.#DB.size > this.maxEntries)\<close>, is \<open>evict\<close>.
\<close>

definition evict :: "Stowrage \<Rightarrow> Stowrage" where
  "evict s =
     (case maxEntries s of
        None \<Rightarrow> s
      | Some m \<Rightarrow>
          if m \<noteq> 0 \<and> totalEntries s > m then
            let found = map_of (IDMap s) (id_counter s - m);
                s1 = (case found of
                        None \<Rightarrow> s
                      | Some n \<Rightarrow> if n \<noteq> [] then s\<lparr>DB := AList.delete n (DB s)\<rparr> else s)
            in mirror (DELETE_WHERE_name found) s1
          else s)"

definition generateEntry :: "string \<Rightarrow> jsval \<Rightarrow> bool \<Rightarrow> Stowrage \<Rightarrow> (error + DataBase) \<times> Stowrage" where
  "generateEntry n key override s =
     (if override then
        (case map_of (DB s) n of
           None \<Rightarrow> (Inl TypeError, s)
         | Some old \<Rightarrow> (Inr \<lparr>entry_id = entry_id old, entry_name = n, entry_data = key\<rparr>, s))
      else
        let i = id_counter s;
            s1 = s\<lparr>id_counter := i + 1\<rparr>;
            obj = \<lparr>entry_id = i, entry_name = n, entry_data = key\<rparr>;
            s2 = mirror (INSERT_INTO i n key) s1
        in (Inr obj, evict s2))"

definition ensure :: "string \<Rightarrow> jsval \<Rightarrow> Stowrage \<Rightarrow> (error + DataBase) \<times> Stowrage" where
  "ensure n v s =
     (if has n s then (Inl (NameDuplicationError n), s)
      else case generateEntry n v False s of
             (Inl e, s1) \<Rightarrow> (Inl e, s1)
           | (Inr entry, s1) \<Rightarrow>
               (Inr entry,
                s1\<lparr>IDMap := AList.update (entry_id entry) n (IDMap s1),
                   DB := AList.update n entry (DB s1)\<rparr>))"

definition add :: "string \<Rightarrow> jsval \<Rightarrow> Stowrage \<Rightarrow> (error + unit) \<times> Stowrage" where
  "add n key s =
     (if has n s then (Inl (NameDuplicationError n), s)
      else case generateEntry n key False s of
             (Inl e, s1) \<Rightarrow> (Inl e, s1)
           | (Inr entry, s1) \<Rightarrow>
               (Inr (),
                s1\<lparr>IDMap := AList.update (entry_id entry) n (IDMap s1),
                   DB := AList.update n entry (DB s1)\<rparr>))"

definition delete :: "string \<Rightarrow> Stowrage \<Rightarrow> (error + unit) \<times> Stowrage" where
  "delete n s =
     (case map_of (DB s) n of
        None \<Rightarrow> (Inl (NameNotFoundError n), s)
      | Some entry \<Rightarrow>
          (Inr (),
           mirror (DELETE_WHERE_id (entry_id entry))
             (s\<lparr>DB := AList.delete n (DB s), IDMap := AList.delete (entry_id entry) (IDMap s)\<rparr>)))"

definition deleteByID :: "int \<Rightarrow> Stowrage \<Rightarrow> (error + unit) \<times> Stowrage" where
  "deleteByID i s =
     (case map_of (IDMap s) i of
        None \<Rightarrow> (Inl (IDNotFoundError (Some i)), s)
      | Some n \<Rightarrow>
          if n = [] then (Inl (IDNotFoundError (Some i)), s)
          else
            (Inr (),
             mirror (DELETE_WHERE_id i)
               (s\<lparr>IDMap := AList.delete i (IDMap s), DB := AList.delete n (DB s)\<rparr>)))"

definition deleteByRange :: "int \<Rightarrow> int \<Rightarrow> Stowrage \<Rightarrow> Stowrage" where
  "deleteByRange start len s =
     (let range = start + len in
      if range \<ge> totalEntries s then
        mirror DELETE_FROM (s\<lparr>DB := [], IDMap := [], id_counter := 0\<rparr>)
      else
        mirror (DELETE_WHERE_id_BETWEEN start range)
          (s\<lparr>DB := filter (\<lambda>entry. entry_id (snd entry) < start \<or> entry_id (snd entry) > range) (DB s),
             IDMap := filter (\<lambda>entry. fst entry < start \<or> fst entry > range) (IDMap s)\<rparr>))"

definition override :: "string \<Rightarrow> jsval \<Rightarrow> Stowrage \<Rightarrow> (error + unit) \<times> Stowrage" where
  "override n newValue s =
     (if \<not> has n s then (Inl (NameNotFoundError n), s)
      else case generateEntry n newValue True s of
             (Inl e, s1) \<Rightarrow> (Inl e, s1)
           | (Inr entry, s1) \<Rightarrow>
               (Inr (),
                mirror (REPLACE_INTO (entry_id entry) (entry_name entry) (entry_data entry))
                  (s1\<lparr>DB := AList.update n entry (DB s1)\<rparr>)))"

definition overrideByID :: "int \<Rightarrow> jsval \<Rightarrow> Stowrage \<Rightarrow> (error + unit) \<times> Stowrage" where
  "overrideByID i key s =
     (case map_of (IDMap s) i of
        None \<Rightarrow> (Inl (IDNotFoundError (Some i)), s)
      | Some n \<Rightarrow> if n \<noteq> [] then override n key s else (Inl (IDNotFoundError (Some i)), s))"

definition filter_entries :: "(DataBase \<Rightarrow> bool) \<Rightarrow> Stowrage \<Rightarrow> DataBase list" where
  "filter_entries func s = filter func (map snd (DB s))"

definition find_entry :: "(DataBase \<Rightarrow> bool) \<Rightarrow> Stowrage \<Rightarrow> DataBase option" where
  "find_entry func s = List.find func (map snd (DB s))"

definition fetch :: "string \<Rightarrow> Stowrage \<Rightarrow> error + DataBase" where
  "fetch n s = (case map_of (DB s) n of None \<Rightarrow> Inl (NameNotFoundError n) | Some d \<Rightarrow> Inr d)"

definition fetchByID :: "int \<Rightarrow> Stowrage \<Rightarrow> error + DataBase" where
  "fetchByID i s =
     (case map_of (IDMap s) i of
        None \<Rightarrow> Inl (IDNotFoundError (Some i))
      | Some n \<Rightarrow> if n = [] then Inl (IDNotFoundError (Some i)) else fetch n s)"

definition fetchByRange :: "int \<Rightarrow> int \<Rightarrow> Stowrage \<Rightarrow> DataBase list" where
  "fetchByRange start len s =
     (let range = start + len in
      if range \<ge> totalEntries s then map snd (DB s)
      else filter (\<lambda>d. entry_id d \<ge> start \<and> entry_id d < range) (map snd (DB s)))"

text \<open>
  \<open>setValue(nameID, options)\<close>. A number is replaced by what \<open>#IDMap\<close> holds for it,
  \<open>undefined\<close> when it holds nothing. The guard \<open>!nameID\<close> then catches \<open>undefined\<close> and
  the empty string only: the first throws \<open>IDNotFoundError\<close> built from the variable,
  which is \<open>undefined\<close> by then, the second \<open>NameNotFoundError\<close>. Any other string goes
  on to \<open>entry!.data\<close>, a \<open>TypeError\<close> when \<open>#DB\<close> has no such name; so is the property
  read on \<open>null\<close>, whose \<open>typeof\<close> is \<open>"object"\<close>. The checks come before any write.
\<close>

definition setValue :: "nameID \<Rightarrow> ChangeValueOptions \<Rightarrow> Stowrage \<Rightarrow> (error + unit) \<times> Stowrage" where
  "setValue nid options s =
     (let resolved = (case nid of ByID i \<Rightarrow> map_of (IDMap s) i | ByName n \<Rightarrow> Some n) in
      case resolved of
        None \<Rightarrow> (Inl (IDNotFoundError None), s)
      | Some n \<Rightarrow>
          if n = [] then (Inl (NameNotFoundError n), s)
          else
            (case map_of (DB s) n of
               None \<Rightarrow> (Inl TypeError, s)
             | Some entry \<Rightarrow>
                 if typeof (entry_data entry) = ''object'' then
                   (case cv_key options of
                      None \<Rightarrow> (Inl KeyUndefinedError, s)
                    | Some k \<Rightarrow>
                        (case entry_data entry of
                           Object ps p \<Rightarrow>
                             if typeof_lookup (prop_get ps p k) = ''undefined''
                             then (Inl (InvalidKeyError k (name_or_unnamed s)), s)
                             else override n (prop_set ps p k (cv_value options)) s
                         | _ \<Rightarrow> (Inl TypeError, s)))
                 else override n (cv_value options) s))"

definition deleteStowrage :: "Stowrage \<Rightarrow> Stowrage" where
  "deleteStowrage s = mirror DELETE_FROM (s\<lparr>DB := [], IDMap := [], id_counter := 0\<rparr>)"

text \<open>
  \<open>close()\<close> leaves the store as it is; what it returns here is the table that the
  closed file holds.
\<close>

definition close :: "Stowrage \<Rightarrow> error + row list" where
  "close s =
     (case SQLDB s of
        None \<Rightarrow> Inl (nonPersistentError (name_or_unnamed s) ''closed'')
      | Some rows \<Rightarrow> Inr rows)"

text \<open>
  \<open>init()\<close>. The first argument is the table found in the file \<open>path + name + ".db"\<close>,
  empty when the file is new. The rows that \<open>SELECT name, data\<close> returns are replayed
  through \<open>add\<close>, with the handle already set; the stored id is not read. The loop
  stops at the first \<open>add\<close> that throws.
\<close>

fun replay :: "(string \<times> jsval) list \<Rightarrow> Stowrage \<Rightarrow> (error + unit) \<times> Stowrage" where
  "replay [] s = (Inr (), s)"
| "replay ((n, d) # rest) s =
     (case add n d s of
        (Inl e, s1) \<Rightarrow> (Inl e, s1)
      | (Inr u, s1) \<Rightarrow> replay rest s1)"

definition init :: "row list \<Rightarrow> Stowrage \<Rightarrow> (error + unit) \<times> Stowrage" where
  "init file s =
     (if truthy_string (store_name s) \<and> truthy_boolean (isPersistent s) then
        replay (SELECT_name_data file) (s\<lparr>SQLDB := Some file\<rparr>)
      else (Inl (nonPersistentError (name_or_unnamed s) ''initiated''), s))"

subsection \<open>Notions used by the properties\<close>

text \<open>
  Every entry that \<open>generateEntry\<close> builds carries the name it is stored under.
\<close>

definition names_agree :: "Stowrage \<Rightarrow> bool" where
  "names_agree s = list_all (\<lambda>(n, e). entry_name e = n) (DB s)"


text \<open>A run of \<open>add\<close> calls on one store, each on the state the one before left.\<close>

fun adds :: "(string \<times> jsval) list \<Rightarrow> Stowrage \<Rightarrow> Stowrage" where
  "adds [] s = s"
| "adds ((n, v) # rest) s = adds rest (snd (add n v s))"

text \<open>\<open>new Stowrage()\<close>, and the store of the spec's example after its two \<open>add\<close> calls.\<close>

definition plain_store :: Stowrage where
  "plain_store = constructor None"

definition store_ab :: Stowrage where
  "store_ab = adds [(''a'', Number 1), (''b'', Number 2)] plain_store"

text \<open>\<open>new Stowrage({ maxEntries: 2 })\<close>\<close>

definition capped_store :: Stowrage where
  "capped_store =
     constructor (Some \<lparr>opt_maxEntries = Some 2, opt_name = None, opt_persistent = None\<rparr>)"

text \<open>\<open>new Stowrage({ maxEntries: 2, name: "t", persistent: true })\<close>\<close>

definition persistent_store :: Stowrage where
  "persistent_store =
     constructor (Some \<lparr>opt_maxEntries = Some 2, opt_name = Some ''t'', opt_persistent = Some True\<rparr>)"

text \<open>\<open>new Stowrage({ name: "t", persistent: true })\<close>\<close>

definition uncapped_persistent_store :: Stowrage where
  "uncapped_persistent_store =
     constructor (Some \<lparr>opt_maxEntries = None, opt_name = Some ''t'', opt_persistent = Some True\<rparr>)"


text \<open>The example store after \<open>delete("a")\<close>: one entry, whose id is 1.\<close>

definition store_b_only :: Stowrage where
  "store_b_only = snd (delete ''a'' store_ab)"

text \<open>A store whose one entry holds an object with two defined properties.\<close>

definition store_obj :: Stowrage where
  "store_obj =
     adds [(''o'', Object [(''p'', Number 1), (''q'', Number 2)] ObjectPrototype)] plain_store"

text \<open>
  A first session on a persistent store with a cap of 2: \<open>init()\<close> on a new file, four
  \<open>add\<close> calls, \<open>close()\<close>. Then a fresh instance with the same options calls
  \<open>init()\<close> on the file that the first one left.
\<close>

definition first_session :: Stowrage where
  "first_session =
     adds [(''a'', Number 1), (''b'', Number 2), (''c'', Number 3), (''d'', Number 4)]
       (snd (init [] persistent_store))"

definition reopened :: "(error + unit) \<times> Stowrage" where
  "reopened =
     (case close first_session of
        Inl e \<Rightarrow> (Inl e, persistent_store)
      | Inr file \<Rightarrow> init file persistent_store)"

text \<open>The same with no cap, one \<open>add\<close> and one \<open>override\<close> of the entry added.\<close>

definition first_session_override :: Stowrage where
  "first_session_override =
     snd (override ''a'' (Number 2)
       (adds [(''a'', Number 1)] (snd (init [] uncapped_persistent_store))))"

definition reopened_override :: "(error + unit) \<times> Stowrage" where
  "reopened_override =
     (case close first_session_override of
        Inl e \<Rightarrow> (Inl e, uncapped_persistent_store)
      | Inr file \<Rightarrow> init file uncapped_persistent_store)"

section \<open>Basic facts\<close>

lemma has_iff: "has n s \<longleftrightarrow> n \<in> fst ` set (DB s)"
  by (simp add: has_def map_of_eq_None_iff)

lemma mirror_fields [simp]:
  "DB (mirror q s) = DB s"
  "IDMap (mirror q s) = IDMap s"
  "id_counter (mirror q s) = id_counter s"
  "maxEntries (mirror q s) = maxEntries s"
  "store_name (mirror q s) = store_name s"
  "isPersistent (mirror q s) = isPersistent s"
  by (simp_all add: mirror_def split: option.splits)

lemma evict_fields [simp]:
  "IDMap (evict s) = IDMap s"
  "id_counter (evict s) = id_counter s"
  "maxEntries (evict s) = maxEntries s"
  "store_name (evict s) = store_name s"
  "isPersistent (evict s) = isPersistent s"
  by (simp_all add: evict_def Let_def split: option.splits)

lemma evict_empty: "IDMap s = [] \<Longrightarrow> DB (evict s) = DB s"
  by (simp add: evict_def Let_def split: option.splits)

lemma typeof_undefined: "typeof v = ''undefined'' \<longleftrightarrow> v = Undefined"
  by (cases v) simp_all

lemma typeof_lookup_undefined: "typeof_lookup r = ''undefined'' \<longleftrightarrow> r = Value Undefined"
  by (cases r) (simp_all add: typeof_undefined)




lemma override_result:
  assumes "map_of (DB s) n = Some e"
  shows "override n v s =
     (Inr (),
      mirror (REPLACE_INTO (entry_id e) n v)
        (s\<lparr>DB := AList.update n \<lparr>entry_id = entry_id e, entry_name = n, entry_data = v\<rparr> (DB s)\<rparr>))"
  using assms by (simp add: override_def has_def generateEntry_def)



text \<open>The example stores, evaluated.\<close>

lemma plain_store_eval:
  "plain_store = \<lparr>id_counter = 0, SQLDB = None, IDMap = [], DB = [], maxEntries = None,
     store_name = None, isPersistent = None\<rparr>"
  by (simp add: plain_store_def constructor_def)

lemma add_plain:
  assumes "maxEntries s = None" and "SQLDB s = None" and "\<not> has n s"
  shows "add n v s =
     (Inr (),
      s\<lparr>id_counter := id_counter s + 1,
        IDMap := AList.update (id_counter s) n (IDMap s),
        DB := AList.update n \<lparr>entry_id = id_counter s, entry_name = n, entry_data = v\<rparr> (DB s)\<rparr>)"
  using assms by (simp add: add_def generateEntry_def Let_def evict_def mirror_def)

lemma store_ab_eval:
  "store_ab = \<lparr>id_counter = 2, SQLDB = None, IDMap = [(0, ''a''), (1, ''b'')],
     DB = [(''a'', \<lparr>entry_id = 0, entry_name = ''a'', entry_data = Number 1\<rparr>),
           (''b'', \<lparr>entry_id = 1, entry_name = ''b'', entry_data = Number 2\<rparr>)],
     maxEntries = None, store_name = None, isPersistent = None\<rparr>"
  by (simp add: store_ab_def plain_store_eval add_plain has_def)


lemma store_b_only_eval:
  "store_b_only = \<lparr>id_counter = 2, SQLDB = None, IDMap = [(1, ''b'')],
     DB = [(''b'', \<lparr>entry_id = 1, entry_name = ''b'', entry_data = Number 2\<rparr>)],
     maxEntries = None, store_name = None, isPersistent = None\<rparr>"
  by (simp add: store_b_only_def store_ab_eval delete_def mirror_def)

lemma store_obj_eval:
  "store_obj = \<lparr>id_counter = 1, SQLDB = None, IDMap = [(0, ''o'')],
     DB = [(''o'', \<lparr>entry_id = 0, entry_name = ''o'',
                   entry_data = Object [(''p'', Number 1), (''q'', Number 2)] ObjectPrototype\<rparr>)],
     maxEntries = None, store_name = None, isPersistent = None\<rparr>"
  by (simp add: store_obj_def plain_store_eval add_plain has_def)

subsection \<open>Entries carry the name they are stored under\<close>

text \<open>
  The constructor starts with no entries, and every method keeps \<open>names_agree\<close>: the
  only entries ever put into \<open>#DB\<close> are those of \<open>generateEntry\<close>, under their own name.
\<close>

lemma list_all_update:
  "P (k, v) \<Longrightarrow> list_all P al \<Longrightarrow> list_all P (AList.update k v al)"
  by (induction al) auto

lemma list_all_delete: "list_all P al \<Longrightarrow> list_all P (AList.delete k al)"
  by (simp add: AList.delete_eq list_all_iff)

lemma update_absent: "k \<notin> fst ` set al \<Longrightarrow> AList.update k v al = al @ [(k, v)]"
  by (induction al) auto

lemma names_agree_lookup:
  assumes "names_agree s" and "map_of (DB s) n = Some e"
  shows "entry_name e = n"
proof -
  from assms(2) have "(n, e) \<in> set (DB s)" by (rule map_of_SomeD)
  with assms(1) show ?thesis by (auto simp: names_agree_def list_all_iff)
qed

lemma names_agree_constructor: "names_agree (constructor options)"
  by (simp add: names_agree_def constructor_def)

lemma names_agree_mirror [simp]: "names_agree (mirror q s) = names_agree s"
  by (simp add: names_agree_def)

lemma names_agree_evict: "names_agree s \<Longrightarrow> names_agree (evict s)"
  by (auto simp: names_agree_def evict_def Let_def list_all_delete split: option.splits)

lemma names_agree_add: "names_agree s \<Longrightarrow> names_agree (snd (add n v s))"
  using names_agree_evict
    [of "mirror (INSERT_INTO (id_counter s) n v) (s\<lparr>id_counter := id_counter s + 1\<rparr>)"]
  by (simp add: add_def generateEntry_def Let_def names_agree_def list_all_update)

lemma names_agree_ensure: "names_agree s \<Longrightarrow> names_agree (snd (ensure n v s))"
  using names_agree_evict
    [of "mirror (INSERT_INTO (id_counter s) n v) (s\<lparr>id_counter := id_counter s + 1\<rparr>)"]
  by (simp add: ensure_def generateEntry_def Let_def names_agree_def list_all_update)

lemma names_agree_override: "names_agree s \<Longrightarrow> names_agree (snd (override n v s))"
  by (auto simp: override_def generateEntry_def names_agree_def list_all_update
      split: option.splits)

lemma names_agree_delete: "names_agree s \<Longrightarrow> names_agree (snd (delete n s))"
  by (auto simp: delete_def names_agree_def list_all_delete split: option.splits)

lemma names_agree_deleteByID: "names_agree s \<Longrightarrow> names_agree (snd (deleteByID i s))"
  by (auto simp: deleteByID_def names_agree_def list_all_delete split: option.splits)

lemma names_agree_deleteByRange: "names_agree s \<Longrightarrow> names_agree (deleteByRange start len s)"
  by (auto simp: deleteByRange_def Let_def names_agree_def list_all_iff)

lemma names_agree_deleteStowrage: "names_agree (deleteStowrage s)"
  by (simp add: deleteStowrage_def names_agree_def)

lemma names_agree_overrideByID: "names_agree s \<Longrightarrow> names_agree (snd (overrideByID i v s))"
  by (auto simp: overrideByID_def names_agree_override split: option.splits)

lemma names_agree_setValue: "names_agree s \<Longrightarrow> names_agree (snd (setValue nid opts s))"
  by (auto simp: setValue_def Let_def names_agree_override split: option.splits jsval.splits)

lemma names_agree_adds: "names_agree s \<Longrightarrow> names_agree (adds xs s)"
  by (induction xs s rule: adds.induct) (simp_all add: names_agree_add)

lemma names_agree_replay: "names_agree s \<Longrightarrow> names_agree (snd (replay rows s))"
proof (induction rows arbitrary: s)
  case Nil
  then show ?case by simp
next
  case (Cons x rest)
  obtain n d where x: "x = (n, d)" by (cases x)
  have "names_agree (snd (add n d s))" using Cons.prems by (rule names_agree_add)
  then show ?case
    using Cons.IH [of "snd (add n d s)"] x
    by (cases "add n d s") (auto split: sum.splits)
qed

lemma names_agree_init: "names_agree s \<Longrightarrow> names_agree (snd (init file s))"
  using names_agree_replay [of "s\<lparr>SQLDB := Some file\<rparr>" "SELECT_name_data file"]
  by (simp add: init_def names_agree_def)

section \<open>Range deletion\<close>

text \<open>
  C5. When \<open>start + length\<close> is below the entry count, \<open>deleteByRange\<close> keeps, in both
  maps and in their order, exactly the entries whose id is outside the inclusive range
  from \<open>start\<close> to \<open>start + length\<close>, and the counter stays as it is. The witness is the
  spec's example: after \<open>add("a", 1)\<close> and \<open>add("b", 2)\<close>, \<open>deleteByRange(0, 0)\<close> leaves
  only \<open>"b"\<close>, with id 1.
\<close>

theorem deleteByRange_partial:
  assumes "start + len < totalEntries s"
  shows "DB (deleteByRange start len s) =
           filter (\<lambda>(n, e). \<not> (start \<le> entry_id e \<and> entry_id e \<le> start + len)) (DB s)
       \<and> IDMap (deleteByRange start len s) =
           filter (\<lambda>(i, n). \<not> (start \<le> i \<and> i \<le> start + len)) (IDMap s)
       \<and> id_counter (deleteByRange start len s) = id_counter s"
proof -
  have partial: "\<not> start + len \<ge> totalEntries s" using assms by simp
  have "DB (deleteByRange start len s) =
      filter (\<lambda>entry. entry_id (snd entry) < start \<or> entry_id (snd entry) > start + len) (DB s)"
    using partial by (simp add: deleteByRange_def Let_def)
  also have "\<dots> = filter (\<lambda>(n, e). \<not> (start \<le> entry_id e \<and> entry_id e \<le> start + len)) (DB s)"
    by (rule filter_cong) auto
  finally have byName: "DB (deleteByRange start len s) =
      filter (\<lambda>(n, e). \<not> (start \<le> entry_id e \<and> entry_id e \<le> start + len)) (DB s)" .
  have "IDMap (deleteByRange start len s) =
      filter (\<lambda>entry. fst entry < start \<or> fst entry > start + len) (IDMap s)"
    using partial by (simp add: deleteByRange_def Let_def)
  also have "\<dots> = filter (\<lambda>(i, n). \<not> (start \<le> i \<and> i \<le> start + len)) (IDMap s)"
    by (rule filter_cong) auto
  finally have byId: "IDMap (deleteByRange start len s) =
      filter (\<lambda>(i, n). \<not> (start \<le> i \<and> i \<le> start + len)) (IDMap s)" .
  have "id_counter (deleteByRange start len s) = id_counter s"
    using partial by (simp add: deleteByRange_def Let_def)
  with byName byId show ?thesis by simp
qed

theorem deleteByRange_partial_witness:
  "0 + 0 < totalEntries store_ab
   \<and> DB (deleteByRange 0 0 store_ab) =
       [(''b'', \<lparr>entry_id = 1, entry_name = ''b'', entry_data = Number 2\<rparr>)]
   \<and> IDMap (deleteByRange 0 0 store_ab) = [(1, ''b'')]
   \<and> id_counter (deleteByRange 0 0 store_ab) = 2"
proof -
  have h: "0 + 0 < totalEntries store_ab"
    by (simp add: totalEntries_def store_ab_eval)
  show ?thesis
    using h deleteByRange_partial [OF h] by (simp add: store_ab_eval)
qed

text \<open>
  C6. When \<open>start + length\<close> reaches the entry count, \<open>deleteByRange\<close> empties both maps
  and sets the counter to zero, so that the next entry, through \<open>ensure\<close> or \<open>add\<close>,
  has id 0.
\<close>

theorem deleteByRange_full_clear:
  assumes "start + len \<ge> totalEntries s"
  shows "DB (deleteByRange start len s) = []
       \<and> IDMap (deleteByRange start len s) = []
       \<and> id_counter (deleteByRange start len s) = 0
       \<and> fst (ensure n v (deleteByRange start len s)) =
           Inr \<lparr>entry_id = 0, entry_name = n, entry_data = v\<rparr>
       \<and> fetch n (snd (add n v (deleteByRange start len s))) =
           Inr \<lparr>entry_id = 0, entry_name = n, entry_data = v\<rparr>"
  using assms
  by (simp add: deleteByRange_def Let_def ensure_def add_def has_def generateEntry_def
      fetch_def evict_empty)

theorem deleteByRange_full_clear_witness:
  "1 + 1 \<ge> totalEntries store_ab
   \<and> DB (deleteByRange 1 1 store_ab) = []
   \<and> IDMap (deleteByRange 1 1 store_ab) = []
   \<and> id_counter (deleteByRange 1 1 store_ab) = 0
   \<and> fst (ensure ''c'' (Number 3) (deleteByRange 1 1 store_ab)) =
       Inr \<lparr>entry_id = 0, entry_name = ''c'', entry_data = Number 3\<rparr>"
proof -
  have h: "1 + 1 \<ge> totalEntries store_ab"
    by (simp add: totalEntries_def store_ab_eval)
  show ?thesis
    using h deleteByRange_full_clear [OF h, of "''c''" "Number 3"] by simp
qed

section \<open>Adding under a name already present\<close>

text \<open>
  C8. For a name that is a key of \<open>#DB\<close>, \<open>add\<close> and \<open>ensure\<close> both throw
  \<open>NameDuplicationError\<close> with that name and leave the whole store as it was.
\<close>

theorem duplicate_add_atomic:
  assumes "n \<in> fst ` set (DB s)"
  shows "add n v s = (Inl (NameDuplicationError n), s)
       \<and> ensure n v s = (Inl (NameDuplicationError n), s)"
  using assms by (simp add: add_def ensure_def has_iff)

theorem duplicate_add_atomic_witness:
  "''a'' \<in> fst ` set (DB store_ab)
   \<and> add ''a'' (Number 9) store_ab = (Inl (NameDuplicationError ''a''), store_ab)
   \<and> ensure ''a'' (Number 9) store_ab = (Inl (NameDuplicationError ''a''), store_ab)
   \<and> totalEntries (snd (add ''a'' (Number 9) store_ab)) = 2"
proof -
  have h: "''a'' \<in> fst ` set (DB store_ab)"
    by (simp add: store_ab_eval)
  have "totalEntries store_ab = 2" by (simp add: totalEntries_def store_ab_eval)
  then show ?thesis
    using h duplicate_add_atomic [OF h, of "Number 9"] by simp
qed

section \<open>Fetching a range\<close>

text \<open>
  C10. When \<open>start + length\<close> reaches the entry count, \<open>fetchByRange\<close> returns every
  entry of the store, whatever its id. In the witness the store holds one entry, with
  id 1, and \<open>fetchByRange(0, 1)\<close> returns it although 1 is outside the range from 0 up
  to, but not including, 1.
\<close>

theorem fetchByRange_covering:
  assumes "start + len \<ge> totalEntries s"
  shows "fetchByRange start len s = map snd (DB s)"
  using assms by (simp add: fetchByRange_def Let_def)

theorem fetchByRange_covering_witness:
  "0 + 1 \<ge> totalEntries store_b_only
   \<and> fetchByRange 0 1 store_b_only =
       [\<lparr>entry_id = 1, entry_name = ''b'', entry_data = Number 2\<rparr>]
   \<and> \<not> (0 \<le> (1::int) \<and> (1::int) < 0 + 1)"
proof -
  have h: "0 + 1 \<ge> totalEntries store_b_only"
    by (simp add: totalEntries_def store_b_only_eval)
  show ?thesis
    using h fetchByRange_covering [OF h] by (simp add: store_b_only_eval)
qed

section \<open>Override\<close>

text \<open>
  C9. For an entry stored under a name, \<open>override\<close> succeeds and the entry fetched
  under that name afterwards is the old one with only its data replaced: same id, same
  name. Every other name fetches what it did before, the keys of \<open>#DB\<close> and their order,
  \<open>#IDMap\<close> and the counter are unchanged.
\<close>

theorem override_frame:
  assumes "names_agree s" and "map_of (DB s) n = Some e"
  shows "fst (override n v s) = Inr ()
       \<and> fetch n (snd (override n v s)) = Inr (e\<lparr>entry_data := v\<rparr>)
       \<and> (\<forall>m. m \<noteq> n \<longrightarrow> fetch m (snd (override n v s)) = fetch m s)
       \<and> map fst (DB (snd (override n v s))) = map fst (DB s)
       \<and> IDMap (snd (override n v s)) = IDMap s
       \<and> id_counter (snd (override n v s)) = id_counter s"
proof -
  have name: "entry_name e = n"
    using assms by (rule names_agree_lookup)
  have "(n, e) \<in> set (DB s)" using assms(2) by (rule map_of_SomeD)
  then have key: "n \<in> fst ` set (DB s)" by force
  have new: "\<lparr>entry_id = entry_id e, entry_name = n, entry_data = v\<rparr> = e\<lparr>entry_data := v\<rparr>"
    using name by simp
  show ?thesis
    using assms(2) key new by (simp add: override_result fetch_def update_conv' update_keys)
qed

theorem override_frame_witness:
  "names_agree store_ab
   \<and> map_of (DB store_ab) ''a'' = Some \<lparr>entry_id = 0, entry_name = ''a'', entry_data = Number 1\<rparr>
   \<and> fst (override ''a'' (Number 5) store_ab) = Inr ()
   \<and> fetch ''a'' (snd (override ''a'' (Number 5) store_ab)) =
       Inr \<lparr>entry_id = 0, entry_name = ''a'', entry_data = Number 5\<rparr>
   \<and> fetch ''b'' (snd (override ''a'' (Number 5) store_ab)) =
       Inr \<lparr>entry_id = 1, entry_name = ''b'', entry_data = Number 2\<rparr>
   \<and> IDMap (snd (override ''a'' (Number 5) store_ab)) = [(0, ''a''), (1, ''b'')]
   \<and> id_counter (snd (override ''a'' (Number 5) store_ab)) = 2"
proof -
  have h1: "names_agree store_ab"
    by (simp add: names_agree_def store_ab_eval)
  have h2: "map_of (DB store_ab) ''a'' =
      Some \<lparr>entry_id = 0, entry_name = ''a'', entry_data = Number 1\<rparr>"
    by (simp add: store_ab_eval)
  have b: "fetch ''b'' store_ab = Inr \<lparr>entry_id = 1, entry_name = ''b'', entry_data = Number 2\<rparr>"
    by (simp add: fetch_def store_ab_eval)
  show ?thesis
    using h1 h2 b override_frame [OF h1 h2, of "Number 5"] by (simp add: store_ab_eval)
qed

section \<open>setValue\<close>

text \<open>
  What \<open>setValue\<close> does when the name is not in \<open>#DB\<close>, or the id not in \<open>#IDMap\<close>. The
  store is the same afterwards in each case.
\<close>

lemma setValue_absent_name:
  assumes "n \<noteq> []" and "map_of (DB s) n = None"
  shows "setValue (ByName n) opts s = (Inl TypeError, s)"
  using assms by (simp add: setValue_def)

lemma setValue_empty_name: "setValue (ByName []) opts s = (Inl (NameNotFoundError []), s)"
  by (simp add: setValue_def)

lemma setValue_absent_id:
  assumes "map_of (IDMap s) i = None"
  shows "setValue (ByID i) opts s = (Inl (IDNotFoundError None), s)"
  using assms by (simp add: setValue_def)

text \<open>
  C4. On a store with no entries, \<open>setValue("x", {value: 1})\<close> ends in the runtime's
  \<open>TypeError\<close>, not in \<open>NameNotFoundError("x")\<close>, and \<open>setValue(7, {value: 1})\<close> throws
  \<open>IDNotFoundError\<close> built from \<open>undefined\<close>, not from 7. The store is unchanged in both.
\<close>

theorem setValue_absent_errors:
  "\<not> has ''x'' plain_store
   \<and> setValue (ByName ''x'') \<lparr>cv_key = None, cv_value = Number 1\<rparr> plain_store =
       (Inl TypeError, plain_store)
   \<and> map_of (IDMap plain_store) 7 = None
   \<and> setValue (ByID 7) \<lparr>cv_key = None, cv_value = Number 1\<rparr> plain_store =
       (Inl (IDNotFoundError None), plain_store)"
  by code_simp




text \<open>
  A key that the object only inherits is outside the amended statement. There
  \<open>setValue\<close> neither throws nor replaces an existing property: for \<open>"toString"\<close> the
  read finds the function of \<open>Object.prototype\<close>, the guard passes, and the write gives
  the object an own property of that name; for \<open>"__proto__"\<close> and an object as the
  value, the write replaces the prototype.
\<close>

lemma setValue_inherited_key_creates:
  "setValue (ByName ''o'') \<lparr>cv_key = Some ''toString'', cv_value = Number 7\<rparr> store_obj =
     (Inr (),
      store_obj\<lparr>DB := [(''o'', \<lparr>entry_id = 0, entry_name = ''o'',
        entry_data = Object [(''p'', Number 1), (''q'', Number 2), (''toString'', Number 7)]
          ObjectPrototype\<rparr>)]\<rparr>)"
  by (simp add: store_obj_eval setValue_def prop_get_def prop_set_def
      Object_prototype_functions_def override_def has_def generateEntry_def mirror_def)

lemma setValue_proto_key_replaces_prototype:
  "setValue (ByName ''o'') \<lparr>cv_key = Some ''__proto__'', cv_value = Object [] NullPrototype\<rparr>
     store_obj =
     (Inr (),
      store_obj\<lparr>DB := [(''o'', \<lparr>entry_id = 0, entry_name = ''o'',
        entry_data = Object [(''p'', Number 1), (''q'', Number 2)]
          (ObjectProto [] NullPrototype)\<rparr>)]\<rparr>)"
  by (simp add: store_obj_eval setValue_def prop_get_def prop_set_def
      override_def has_def generateEntry_def mirror_def)

section \<open>The cap\<close>

text \<open>
  A store with \<open>maxEntries = N\<close> that holds at most \<open>N\<close> entries takes one more under a new
  name and evicts nothing: the cap is compared with the size before the new entry is
  put in. So it can reach \<open>N + 1\<close> entries.
\<close>

lemma add_within_cap_appends:
  assumes "maxEntries s = Some N" and "totalEntries s \<le> N" and "\<not> has n s"
  shows "DB (snd (add n v s)) =
     DB s @ [(n, \<lparr>entry_id = id_counter s, entry_name = n, entry_data = v\<rparr>)]"
proof -
  let ?s2 = "mirror (INSERT_INTO (id_counter s) n v) (s\<lparr>id_counter := id_counter s + 1\<rparr>)"
  have "\<not> totalEntries ?s2 > N" using assms(2) by (simp add: totalEntries_def)
  then have "evict ?s2 = ?s2" using assms(1) by (simp add: evict_def)
  moreover have "n \<notin> fst ` set (DB s)" using assms(3) by (simp add: has_iff)
  ultimately show ?thesis
    using assms(3) by (simp add: add_def generateEntry_def Let_def update_absent)
qed

text \<open>
  C1. With \<open>maxEntries = 2\<close>, after three \<open>add\<close> calls under distinct names the store
  holds three entries, and the one with the smallest id, 0, is still there.
\<close>

theorem eviction_at_cap_fails:
  "maxEntries capped_store = Some 2
   \<and> totalEntries (adds [(''a'', Number 1), (''b'', Number 2), (''c'', Number 3)] capped_store) = 3
   \<and> fetchByID 0 (adds [(''a'', Number 1), (''b'', Number 2), (''c'', Number 3)] capped_store) =
       Inr \<lparr>entry_id = 0, entry_name = ''a'', entry_data = Number 1\<rparr>"
  by code_simp

text \<open>
  C2. With \<open>maxEntries = 2\<close>, the fourth \<open>add\<close> evicts the entry with id 2 from \<open>#DB\<close>
  only: afterwards \<open>#DB\<close> has three entries and \<open>#IDMap\<close> four, and \<open>#IDMap\<close> still maps
  2 to \<open>"c"\<close>, a name that \<open>#DB\<close> no longer has.
\<close>

theorem eviction_breaks_bijection:
  "length (DB (adds [(''a'', Number 1), (''b'', Number 2), (''c'', Number 3), (''d'', Number 4)]
      capped_store)) = 3
   \<and> length (IDMap (adds [(''a'', Number 1), (''b'', Number 2), (''c'', Number 3), (''d'', Number 4)]
      capped_store)) = 4
   \<and> map_of (IDMap (adds [(''a'', Number 1), (''b'', Number 2), (''c'', Number 3), (''d'', Number 4)]
      capped_store)) 2 = Some ''c''
   \<and> \<not> has ''c'' (adds [(''a'', Number 1), (''b'', Number 2), (''c'', Number 3), (''d'', Number 4)]
      capped_store)"
  by code_simp

section \<open>Closing and reopening a persistent store\<close>

text \<open>
  C3. A persistent store with \<open>maxEntries = 2\<close> is initialised on a new file, takes
  four \<open>add\<close> calls and is closed; the file then holds the rows of \<open>"a"\<close>, \<open>"b"\<close> and \<open>"d"\<close>,
  with ids 0, 1 and 3, and the store holds \<open>"d"\<close> with id 3. A fresh instance with the
  same options initialised on that file holds \<open>"d"\<close> with id 2: \<open>init\<close> reads the names
  and the data only and numbers the entries anew.
\<close>

theorem reopen_changes_id:
  "fst (init [] persistent_store) = Inr ()
   \<and> close first_session =
       Inr [\<lparr>row_id = 0, row_name = ''a'', row_data = Number 1\<rparr>,
            \<lparr>row_id = 1, row_name = ''b'', row_data = Number 2\<rparr>,
            \<lparr>row_id = 3, row_name = ''d'', row_data = Number 4\<rparr>]
   \<and> fetch ''d'' first_session = Inr \<lparr>entry_id = 3, entry_name = ''d'', entry_data = Number 4\<rparr>
   \<and> fst reopened = Inr ()
   \<and> fetch ''d'' (snd reopened) = Inr \<lparr>entry_id = 2, entry_name = ''d'', entry_data = Number 4\<rparr>"
  by code_simp

text \<open>
  With no cap: after \<open>add("a", 1)\<close> and \<open>override("a", 2)\<close> the file holds two rows named
  \<open>"a"\<close>, since \<open>REPLACE INTO\<close> has no key to replace by. The fresh instance's \<open>init\<close>
  throws \<open>NameDuplicationError\<close> at the second row and is left holding the first value.
\<close>

lemma reopen_after_override_throws:
  "fetch ''a'' first_session_override =
     Inr \<lparr>entry_id = 0, entry_name = ''a'', entry_data = Number 2\<rparr>
   \<and> close first_session_override =
       Inr [\<lparr>row_id = 0, row_name = ''a'', row_data = Number 1\<rparr>,
            \<lparr>row_id = 0, row_name = ''a'', row_data = Number 2\<rparr>]
   \<and> fst reopened_override = Inl (NameDuplicationError ''a'')
   \<and> fetch ''a'' (snd reopened_override) =
       Inr \<lparr>entry_id = 0, entry_name = ''a'', entry_data = Number 1\<rparr>"
  by code_simp

end
